theory Spec2Isabelle
  imports Complex_Main
begin

section \<open>JavaScript values\<close>

text \<open>
  The configuration loader of the plugin (\<^verbatim>\<open>src/module_configuration.ts\<close>) works on
  untyped JavaScript values: what \<^verbatim>\<open>JSON.parse\<close> returns, and what the validators inspect
  with \<^verbatim>\<open>typeof\<close>, \<^verbatim>\<open>Number.isInteger\<close>, \<^verbatim>\<open>Number.isFinite\<close> and \<^verbatim>\<open>Array.isArray\<close>.

  A number is an IEEE double in the source. Every double is either a rational number, an
  infinity or NaN, so a number is modelled by its exact value. The comparisons and the
  integrality test of the validators are exact on doubles, hence the same on the model.
  Arithmetic (only the plant-time module multiplies) is exact in the model and rounded in
  the source; the two agree whenever the exact result is a double, as for the small
  integers used in the examples below.

  A string is a list of 8-bit characters: the model covers the texts whose UTF-16 code
  units are below 256.
\<close>

datatype jsnum = Fin rat | PosInf | NegInf | NaN

datatype jsval =
    JUndefined
  | JNull
  | JBool bool
  | JNum jsnum
  | JStr string
  | JArr "jsval list"
  | JObj "(string \<times> jsval) list"

type_synonym jsobj = "(string \<times> jsval) list"

datatype jstype = Ty_undefined | Ty_object | Ty_boolean | Ty_number | Ty_string

fun typeof :: "jsval \<Rightarrow> jstype" where
  "typeof JUndefined = Ty_undefined"
| "typeof JNull = Ty_object"
| "typeof (JBool b) = Ty_boolean"
| "typeof (JNum n) = Ty_number"
| "typeof (JStr s) = Ty_string"
| "typeof (JArr xs) = Ty_object"
| "typeof (JObj ms) = Ty_object"

text \<open>\<^verbatim>\<open>Number.isFinite\<close>, \<^verbatim>\<open>Number.isInteger\<close> and \<^verbatim>\<open>Array.isArray\<close>: false on every value
  that is not a number (an array).\<close>

fun isFinite :: "jsval \<Rightarrow> bool" where
  "isFinite (JNum (Fin r)) = True"
| "isFinite v = False"

fun isInteger :: "jsval \<Rightarrow> bool" where
  "isInteger (JNum (Fin r)) = (of_int \<lfloor>r\<rfloor> = r)"
| "isInteger v = False"

fun isArray :: "jsval \<Rightarrow> bool" where
  "isArray (JArr xs) = True"
| "isArray v = False"

text \<open>The relational operators on a number and a numeric literal; a comparison with NaN,
  and (here) with a value that is not a number, is false.\<close>

fun num_less :: "jsnum \<Rightarrow> jsnum \<Rightarrow> bool" where
  "num_less (Fin a) (Fin b) = (a < b)"
| "num_less NaN y = False"
| "num_less x NaN = False"
| "num_less NegInf NegInf = False"
| "num_less NegInf y = True"
| "num_less x NegInf = False"
| "num_less PosInf y = False"
| "num_less x PosInf = True"

fun js_lt :: "jsval \<Rightarrow> rat \<Rightarrow> bool" where
  "js_lt (JNum n) k = num_less n (Fin k)"
| "js_lt v k = False"

fun js_gt :: "jsval \<Rightarrow> rat \<Rightarrow> bool" where
  "js_gt (JNum n) k = num_less (Fin k) n"
| "js_gt v k = False"

fun js_ge :: "jsval \<Rightarrow> rat \<Rightarrow> bool" where
  "js_ge (JNum (Fin a)) k = (k \<le> a)"
| "js_ge (JNum PosInf) k = True"
| "js_ge v k = False"

fun js_le :: "jsval \<Rightarrow> rat \<Rightarrow> bool" where
  "js_le (JNum (Fin a)) k = (a \<le> k)"
| "js_le (JNum NegInf) k = True"
| "js_le v k = False"

text \<open>Own properties of an object, in insertion order. Reading a missing property gives
  \<^verbatim>\<open>undefined\<close>; writing an existing property keeps its place, writing a new one appends.\<close>

fun hasOwnProperty :: "jsobj \<Rightarrow> string \<Rightarrow> bool" where
  "hasOwnProperty [] k = False"
| "hasOwnProperty ((k', v) # ms) k = (if k' = k then True else hasOwnProperty ms k)"

fun obj_get :: "jsobj \<Rightarrow> string \<Rightarrow> jsval" where
  "obj_get [] k = JUndefined"
| "obj_get ((k', v) # ms) k = (if k' = k then v else obj_get ms k)"

fun obj_set :: "jsobj \<Rightarrow> string \<Rightarrow> jsval \<Rightarrow> jsobj" where
  "obj_set [] k v = [(k, v)]"
| "obj_set ((k', v') # ms) k v = (if k' = k then (k, v) # ms else (k', v') # obj_set ms k v)"

definition keys :: "jsobj \<Rightarrow> string list" where
  "keys ms = map fst ms"

section \<open>The comment and syntax sanitizer\<close>

text \<open>
  White space as \<^verbatim>\<open>String.prototype.trim\<close> and the regular expression class \<^verbatim>\<open>\s\<close>
  understand it, among the characters below 256: tab, line feed, vertical tab, form feed,
  carriage return, space and the no-break space. The line terminators that \<^verbatim>\<open>.\<close> does
  not match and before which \<^verbatim>\<open>$\<close> matches under the \<^verbatim>\<open>m\<close> flag: line feed and carriage
  return.
\<close>

definition is_space :: "char \<Rightarrow> bool" where
  "is_space c = (c = CHR 0x09 \<or> c = CHR 0x0A \<or> c = CHR 0x0B \<or> c = CHR 0x0C \<or> c = CHR 0x0D
     \<or> c = CHR 0x20 \<or> c = CHR 0xA0)"

definition is_line_terminator :: "char \<Rightarrow> bool" where
  "is_line_terminator c = (c = CHR 0x0A \<or> c = CHR 0x0D)"

definition not_line_terminator :: "char \<Rightarrow> bool" where
  "not_line_terminator c = (\<not> is_line_terminator c)"

text \<open>\<^verbatim>\<open>String.prototype.trim\<close>: the white space at both ends is removed.\<close>

fun trim_end :: "string \<Rightarrow> string" where
  "trim_end [] = []"
| "trim_end (c # cs) = (if is_space c \<and> list_all is_space cs then [] else c # trim_end cs)"

definition trim :: "string \<Rightarrow> string" where
  "trim s = trim_end (dropWhile is_space s)"

text \<open>
  \<^verbatim>\<open>s.replace(/\/\*[\s\S]*?\*\//g, '')\<close>: scanning from the left, a \<^verbatim>\<open>/*\<close> that is followed
  by a \<^verbatim>\<open>*/\<close> is deleted up to and including the first such \<^verbatim>\<open>*/\<close>, and the scan goes on
  behind it; a \<^verbatim>\<open>/*\<close> with no \<^verbatim>\<open>*/\<close> behind it stays. \<open>find_close\<close> returns what follows
  the first \<^verbatim>\<open>*/\<close>.
\<close>

fun find_close :: "string \<Rightarrow> string option" where
  "find_close [] = None"
| "find_close [c] = None"
| "find_close (c # d # cs) =
     (if c = CHR ''*'' \<and> d = CHR ''/'' then Some cs else find_close (d # cs))"

lemma find_close_shorter: "find_close cs = Some r \<Longrightarrow> length r < length cs"
  by (induction cs arbitrary: r rule: find_close.induct) (auto split: if_splits)

function strip_block :: "string \<Rightarrow> string" where
  "strip_block [] = []"
| "strip_block [c] = [c]"
| "strip_block (c # d # cs) =
     (if c = CHR ''/'' \<and> d = CHR ''*''
      then (case find_close cs of
              Some r \<Rightarrow> strip_block r
            | None \<Rightarrow> c # strip_block (d # cs))
      else c # strip_block (d # cs))"
  by pat_completeness auto
termination
  by (relation "measure length") (auto dest: find_close_shorter)

text \<open>
  \<^verbatim>\<open>s.replace(/(?<![:"'\\])\/\/.*$/gm, '')\<close>: a \<^verbatim>\<open>//\<close> whose preceding character is none
  of \<^verbatim>\<open>:\<close>, \<^verbatim>\<open>"\<close>, \<^verbatim>\<open>'\<close> and backslash is deleted together with the rest of its line (the
  line terminator stays). The first argument is the character before the scan position.
\<close>

definition guarded :: "char option \<Rightarrow> bool" where
  "guarded p = (p = Some CHR '':'' \<or> p = Some CHR 0x22 \<or> p = Some CHR 0x27 \<or> p = Some CHR 0x5C)"

function strip_line :: "char option \<Rightarrow> string \<Rightarrow> string" where
  "strip_line p [] = []"
| "strip_line p [c] = [c]"
| "strip_line p (c # d # cs) =
     (if c = CHR ''/'' \<and> d = CHR ''/'' \<and> \<not> guarded p
      then strip_line (Some (last (d # takeWhile not_line_terminator cs)))
             (dropWhile not_line_terminator cs)
      else c # strip_line (Some c) (d # cs))"
  by pat_completeness auto
termination
  by (relation "measure (\<lambda>(p, s). length s)")
     (auto simp: le_imp_less_Suc length_dropWhile_le less_Suc_eq_le le_SucI)

text \<open>\<^verbatim>\<open>stripJsonComments\<close>. The \<^verbatim>\<open>catch\<close> branch of the source is not modelled:
  \<^verbatim>\<open>String.prototype.replace\<close> and \<^verbatim>\<open>trim\<close> do not throw on a string.\<close>

definition stripJsonComments :: "string \<Rightarrow> string" where
  "stripJsonComments jsonString = trim (strip_line None (strip_block jsonString))"

text \<open>
  \<^verbatim>\<open>s.replace(/,\s*([}\]])/g, "$1")\<close>: a comma followed by white space and a closing brace
  or bracket is replaced, with the white space, by the closer alone.
\<close>

definition is_closer :: "char \<Rightarrow> bool" where
  "is_closer c = (c = CHR ''}'' \<or> c = CHR '']'')"

function fixTrailingCommas :: "string \<Rightarrow> string" where
  "fixTrailingCommas [] = []"
| "fixTrailingCommas (c # cs) =
     (if c = CHR '',''
      then (case dropWhile is_space cs of
              [] \<Rightarrow> c # fixTrailingCommas cs
            | d # r \<Rightarrow> if is_closer d then d # fixTrailingCommas r
                       else c # fixTrailingCommas cs)
      else c # fixTrailingCommas cs)"
  by pat_completeness auto
termination
proof (relation "measure length", goal_cases)
  case (3 c cs d r)
  have "length (dropWhile is_space cs) \<le> length cs" by (rule length_dropWhile_le)
  with 3 show ?case by simp
qed auto



text \<open>
  The \<^verbatim>\<open>stripJsonComments\<close> of the loader of version 1.0.1 (\<^verbatim>\<open>configCreation.ts\<close>) is one
  pass, \<^verbatim>\<open>s.replace(/\/\*[\s\S]*?\*\/|(?<!\\)\/\/.*$/gm, '')\<close>, with no trimming: at each
  position a closed block comment is deleted, or else a \<^verbatim>\<open>//\<close> that no backslash precedes,
  with the rest of its line.
\<close>

function legacy_stripJsonComments :: "char option \<Rightarrow> string \<Rightarrow> string" where
  "legacy_stripJsonComments p [] = []"
| "legacy_stripJsonComments p [c] = [c]"
| "legacy_stripJsonComments p (c # d # cs) =
     (if c = CHR ''/'' \<and> d = CHR ''*'' \<and> find_close cs \<noteq> None
      then (case find_close cs of
              Some r \<Rightarrow> legacy_stripJsonComments (Some CHR ''/'') r
            | None \<Rightarrow> [])
      else if c = CHR ''/'' \<and> d = CHR ''/'' \<and> p \<noteq> Some CHR 0x5C
      then legacy_stripJsonComments (Some (last (d # takeWhile not_line_terminator cs)))
             (dropWhile not_line_terminator cs)
      else c # legacy_stripJsonComments (Some c) (d # cs))"
  by pat_completeness auto
termination
  by (relation "measure (\<lambda>(p, s). length s)")
     (auto simp: le_imp_less_Suc length_dropWhile_le less_Suc_eq_le le_SucI
        dest: find_close_shorter)

section \<open>Strict JSON\<close>

text \<open>
  Modelled from the spec: the host's \<^verbatim>\<open>JsonUtil.deserialize\<close>, which the loader calls to
  parse the sanitized text, is not part of the sources. The specification (4.3, step 4)
  says the text is parsed as strict JSON, so \<open>json_parse\<close> follows the JSON grammar
  (ECMA-404): white space is space, tab, line feed and carriage return; a string is
  quoted, with the escapes \<^verbatim>\<open>\" \\ \/ \b \f \n \r \t \uXXXX\<close> and no raw control character;
  a number is \<^verbatim>\<open>-?(0|[1-9][0-9]*)(\.[0-9]+)?([eE][+-]?[0-9]+)?\<close>; a later duplicate of a key
  replaces the value of the earlier one. A number literal denotes its exact decimal value
  (the source rounds it to the nearest double); a \<^verbatim>\<open>\u\<close> escape above \<^verbatim>\<open>00FF\<close> names a
  character outside the modelled alphabet and is rejected.
\<close>

datatype token =
    TLBrace | TRBrace | TLBracket | TRBracket | TColon | TComma
  | TString string | TNumber rat | TTrue | TFalse | TNull | TBad

definition is_json_ws :: "char \<Rightarrow> bool" where
  "is_json_ws c = (c = CHR 0x20 \<or> c = CHR 0x09 \<or> c = CHR 0x0A \<or> c = CHR 0x0D)"

definition is_digit :: "char \<Rightarrow> bool" where
  "is_digit c = (c \<in> set ''0123456789'')"

definition hex_of :: "char \<Rightarrow> nat option" where
  "hex_of c = map_of
     [(CHR ''0'', 0), (CHR ''1'', 1), (CHR ''2'', 2), (CHR ''3'', 3), (CHR ''4'', 4),
      (CHR ''5'', 5), (CHR ''6'', 6), (CHR ''7'', 7), (CHR ''8'', 8), (CHR ''9'', 9),
      (CHR ''a'', 10), (CHR ''b'', 11), (CHR ''c'', 12), (CHR ''d'', 13), (CHR ''e'', 14),
      (CHR ''f'', 15), (CHR ''A'', 10), (CHR ''B'', 11), (CHR ''C'', 12), (CHR ''D'', 13),
      (CHR ''E'', 14), (CHR ''F'', 15)] c"

definition digit_of :: "char \<Rightarrow> nat" where
  "digit_of c = (case hex_of c of None \<Rightarrow> 0 | Some d \<Rightarrow> d)"

text \<open>A number literal is a maximal run of the characters that occur in numbers, checked
  against the grammar afterwards; a keyword is a maximal run of lower-case letters.\<close>

definition is_num_char :: "char \<Rightarrow> bool" where
  "is_num_char c = (c \<in> set ''0123456789-+.eE'')"

definition is_word_char :: "char \<Rightarrow> bool" where
  "is_word_char c = (c \<in> set ''abcdefghijklmnopqrstuvwxyz'')"

definition is_control :: "char \<Rightarrow> bool" where
  "is_control c = ((of_char c :: nat) < 32)"

subsection \<open>Numbers\<close>

definition digits_value :: "string \<Rightarrow> nat" where
  "digits_value ds = foldl (\<lambda>a d. 10 * a + digit_of d) 0 ds"

text \<open>The integer part: one or more digits, with no leading zero before another digit.\<close>

definition int_part_ok :: "string \<Rightarrow> bool" where
  "int_part_ok ds = (ds \<noteq> [] \<and> (length ds = 1 \<or> hd ds \<noteq> CHR ''0''))"

text \<open>The optional exponent behind \<^verbatim>\<open>e\<close> or \<^verbatim>\<open>E\<close>: a sign and one or more digits, to the
  end of the literal.\<close>

definition parse_exponent :: "string \<Rightarrow> int option" where
  "parse_exponent s =
     (let neg = (s \<noteq> [] \<and> hd s = CHR ''-'');
          ds = (if s \<noteq> [] \<and> (hd s = CHR ''-'' \<or> hd s = CHR ''+'') then tl s else s)
      in if ds \<noteq> [] \<and> list_all is_digit ds
         then Some (if neg then - int (digits_value ds) else int (digits_value ds))
         else None)"

definition parse_exp_opt :: "string \<Rightarrow> int option" where
  "parse_exp_opt s =
     (if s = [] then Some 0
      else if hd s = CHR ''e'' \<or> hd s = CHR ''E'' then parse_exponent (tl s)
      else None)"

text \<open>The optional fraction: a point and one or more digits; the result is the fraction's
  value and what follows it.\<close>

definition parse_fraction :: "string \<Rightarrow> (rat \<times> string) option" where
  "parse_fraction s =
     (if s \<noteq> [] \<and> hd s = CHR ''.''
      then (let ds = takeWhile is_digit (tl s)
            in if ds = [] then None
               else Some (of_nat (digits_value ds) / 10 ^ length ds, dropWhile is_digit (tl s)))
      else Some (0, s))"

definition pow10 :: "int \<Rightarrow> rat" where
  "pow10 e = (if 0 \<le> e then 10 ^ nat e else 1 / 10 ^ nat (- e))"

definition parse_unsigned :: "string \<Rightarrow> rat option" where
  "parse_unsigned s =
     (let ip = takeWhile is_digit s
      in if int_part_ok ip
         then (case parse_fraction (dropWhile is_digit s) of
                 None \<Rightarrow> None
               | Some (f, rest) \<Rightarrow>
                   (case parse_exp_opt rest of
                      None \<Rightarrow> None
                    | Some e \<Rightarrow> Some ((of_nat (digits_value ip) + f) * pow10 e)))
         else None)"

definition parse_number :: "string \<Rightarrow> rat option" where
  "parse_number s =
     (if s \<noteq> [] \<and> hd s = CHR ''-'' then map_option uminus (parse_unsigned (tl s))
      else parse_unsigned s)"

subsection \<open>Strings\<close>

text \<open>What follows the closing quote of a string whose opening quote has been read (the
  empty text when the string is not closed), and the string's content with the escapes
  resolved (\<open>None\<close> when the string is not closed or ill-formed).\<close>

fun str_rest :: "string \<Rightarrow> string" where
  "str_rest [] = []"
| "str_rest [c] = []"
| "str_rest (c # d # cs) =
     (if c = CHR 0x22 then d # cs
      else if c = CHR 0x5C then str_rest cs
      else str_rest (d # cs))"

definition unescape :: "char \<Rightarrow> char option" where
  "unescape c = map_of
     [(CHR 0x22, CHR 0x22), (CHR 0x5C, CHR 0x5C), (CHR ''/'', CHR ''/''), (CHR ''b'', CHR 0x08),
      (CHR ''f'', CHR 0x0C), (CHR ''n'', CHR 0x0A), (CHR ''r'', CHR 0x0D), (CHR ''t'', CHR 0x09)] c"

definition hex4 :: "string \<Rightarrow> char option" where
  "hex4 hs =
     (if length hs = 4 \<and> list_all (\<lambda>h. hex_of h \<noteq> None) hs
      then (let n = foldl (\<lambda>a h. 16 * a + digit_of h) 0 hs
            in if n < 256 then Some (char_of n) else None)
      else None)"

definition cons_opt :: "char option \<Rightarrow> string option \<Rightarrow> string option" where
  "cons_opt c s = (case c of None \<Rightarrow> None | Some x \<Rightarrow> map_option ((#) x) s)"

function str_body :: "string \<Rightarrow> string option" where
  "str_body [] = None"
| "str_body (c # cs) =
     (if c = CHR 0x22 then Some []
      else if c = CHR 0x5C
      then (if cs = [] then None
            else if hd cs = CHR ''u'' then cons_opt (hex4 (take 4 (tl cs))) (str_body (drop 4 (tl cs)))
            else cons_opt (unescape (hd cs)) (str_body (tl cs)))
      else if is_control c then None
      else cons_opt (Some c) (str_body cs))"
  by pat_completeness auto
termination
  by (relation "measure length") (auto simp: less_Suc_eq_le le_SucI)

subsection \<open>Tokens\<close>

definition string_token :: "string option \<Rightarrow> token" where
  "string_token s = (case s of None \<Rightarrow> TBad | Some x \<Rightarrow> TString x)"

definition number_token :: "rat option \<Rightarrow> token" where
  "number_token n = (case n of None \<Rightarrow> TBad | Some x \<Rightarrow> TNumber x)"

definition word_token :: "string \<Rightarrow> token" where
  "word_token w = (if w = ''true'' then TTrue else if w = ''false'' then TFalse
     else if w = ''null'' then TNull else TBad)"

definition punct_token :: "char \<Rightarrow> token" where
  "punct_token c = (if c = CHR ''{'' then TLBrace else if c = CHR ''}'' then TRBrace
     else if c = CHR ''['' then TLBracket else if c = CHR '']'' then TRBracket
     else if c = CHR '':'' then TColon else if c = CHR '','' then TComma else TBad)"

lemma str_rest_le: "length (str_rest cs) \<le> length cs"
  by (induction cs rule: str_rest.induct) auto

text \<open>The token list of a text; anything that is no JSON token becomes \<open>TBad\<close>, which no
  parse accepts.\<close>

function lex :: "string \<Rightarrow> token list" where
  "lex [] = []"
| "lex (c # cs) =
     (if is_json_ws c then lex cs
      else if c = CHR 0x22 then string_token (str_body cs) # lex (str_rest cs)
      else if is_num_char c
      then number_token (parse_number (c # takeWhile is_num_char cs)) # lex (dropWhile is_num_char cs)
      else if is_word_char c
      then word_token (c # takeWhile is_word_char cs) # lex (dropWhile is_word_char cs)
      else punct_token c # lex cs)"
  by pat_completeness auto
termination
proof (relation "measure length", goal_cases)
  case (3 c cs)
  have "length (str_rest cs) \<le> length cs" by (rule str_rest_le)
  then show ?case by simp
qed (auto simp: less_Suc_eq_le length_dropWhile_le)

subsection \<open>Values\<close>

text \<open>
  The token list is read by a machine with a stack of the containers that are still open:
  an array with its elements so far (last first), an object with its members so far, or an
  object whose next value belongs to a key already read.
\<close>

datatype frame = FArr "jsval list" | FObj jsobj | FKey jsobj string

datatype pstate = Value | ValueOrEnd | KeyOrEnd | Key | Colon | Next | Done jsval

type_synonym pconf = "pstate \<times> frame list"

text \<open>A complete value goes to the innermost open container, or ends the parse.\<close>

fun deliver :: "jsval \<Rightarrow> frame list \<Rightarrow> pconf option" where
  "deliver v [] = Some (Done v, [])"
| "deliver v (FArr vs # st) = Some (Next, FArr (v # vs) # st)"
| "deliver v (FKey ms k # st) = Some (Next, FObj (obj_set ms k v) # st)"
| "deliver v (FObj ms # st) = None"

fun scalar :: "token \<Rightarrow> jsval option" where
  "scalar (TString s) = Some (JStr s)"
| "scalar (TNumber n) = Some (JNum (Fin n))"
| "scalar TTrue = Some (JBool True)"
| "scalar TFalse = Some (JBool False)"
| "scalar TNull = Some JNull"
| "scalar t = None"

fun start_value :: "token \<Rightarrow> frame list \<Rightarrow> pconf option" where
  "start_value TLBracket st = Some (ValueOrEnd, FArr [] # st)"
| "start_value TLBrace st = Some (KeyOrEnd, FObj [] # st)"
| "start_value t st = (case scalar t of None \<Rightarrow> None | Some v \<Rightarrow> deliver v st)"

fun read_key :: "token \<Rightarrow> frame list \<Rightarrow> pconf option" where
  "read_key (TString k) (FObj ms # st) = Some (Colon, FKey ms k # st)"
| "read_key t st = None"

fun close_container :: "token \<Rightarrow> frame list \<Rightarrow> pconf option" where
  "close_container TRBracket (FArr vs # st) = deliver (JArr (rev vs)) st"
| "close_container TRBrace (FObj ms # st) = deliver (JObj ms) st"
| "close_container t st = None"

fun after_value :: "token \<Rightarrow> frame list \<Rightarrow> pconf option" where
  "after_value TComma (FArr vs # st) = Some (Value, FArr vs # st)"
| "after_value TComma (FObj ms # st) = Some (Key, FObj ms # st)"
| "after_value t st = close_container t st"

fun step :: "pstate \<Rightarrow> frame list \<Rightarrow> token \<Rightarrow> pconf option" where
  "step Value st t = start_value t st"
| "step ValueOrEnd st t = (if t = TRBracket then close_container t st else start_value t st)"
| "step KeyOrEnd st t = (if t = TRBrace then close_container t st else read_key t st)"
| "step Key st t = read_key t st"
| "step Colon st t = (if t = TColon then Some (Value, st) else None)"
| "step Next st t = after_value t st"
| "step (Done v) st t = None"

text \<open>The machine stops at the first token it cannot take; at the end of the tokens the
  parse succeeds when one value is complete and no container is open.\<close>

fun finish :: "pconf \<Rightarrow> jsval option" where
  "finish (Done v, []) = Some v"
| "finish c = None"

fun run :: "pconf option \<Rightarrow> token list \<Rightarrow> jsval option" where
  "run None ts = None"
| "run (Some c) [] = finish c"
| "run (Some (s, st)) (t # ts) = run (step s st t) ts"

datatype error = SyntaxError | IOError

text \<open>Modelled from the spec: \<^verbatim>\<open>jsonUtil.deserialize\<close> of the host, as the strict JSON parse
  of the whole text; a text that is no JSON value makes it throw a syntax error.\<close>

definition json_parse :: "string \<Rightarrow> error + jsval" where
  "json_parse s =
     (case run (Some (Value, [])) (lex s) of None \<Rightarrow> Inl SyntaxError | Some v \<Rightarrow> Inr v)"

section \<open>Configuration descriptors\<close>

text \<open>The two default objects of \<^verbatim>\<open>module_configuration.ts\<close>, with their keys in the
  order of the object literals.\<close>

definition defaultMainConfigValues :: jsobj where
  "defaultMainConfigValues =
    [(''use_weather_module'', JBool False),
     (''use_plant_time_module'', JBool False),
     (''use_ammo_module'', JBool False),
     (''use_weapon_module'', JBool False),
     (''LootArmbands'', JBool True),
     (''SaveArmbandOnDeath'', JBool False),
     (''LootMelee'', JBool True),
     (''SaveMeleeOnDeath'', JBool False),
     (''disablePMC_ChatResponse'', JBool False),
     (''allow_LegaMoneyCase'', JBool False),
     (''stacksize_lega'', JNum (Fin 50)),
     (''removeFirForHideout'', JBool False),
     (''disableSeasonEvents'', JBool False),
     (''leaveItemAtLocationModifier'', JNum (Fin 1)),
     (''placeBeaconModifier'', JNum (Fin 1)),
     (''weightless_ammo'', JBool False),
     (''weightless_ammoboxes'', JBool False),
     (''weightless_grenades'', JBool False),
     (''weapon_inv_shrink'', JBool False),
     (''allow_autoupdate_configs'', JBool False),
     (''enableDebugLogs'', JBool False)]"

definition defaultWeatherConfigValues :: jsobj where
  "defaultWeatherConfigValues =
    [(''use_fixed_season'', JBool False),
     (''fixed_season_index'', JNum (Fin 1)),
     (''use_weight_system'', JBool False),
     (''use_random_system'', JBool True),
     (''random_system_mode'', JNum (Fin 0)),
     (''exclude_seasons'', JArr []),
     (''Summer'', JNum (Fin 10)),
     (''Autumn'', JNum (Fin 10)),
     (''Winter'', JNum (Fin 10)),
     (''Spring'', JNum (Fin 10)),
     (''LateAutumn'', JNum (Fin 10)),
     (''EarlySpring'', JNum (Fin 10)),
     (''Storm'', JNum (Fin 5))]"




section \<open>Field validators\<close>

text \<open>
  A validator mutates the merged object in place and collects the keys it reset; the
  model passes the pair of the object and the list along. \<open>push_reset\<close> is
  \<^verbatim>\<open>if (!resetKeys.includes(key)) resetKeys.push(key)\<close>.
\<close>

type_synonym vstate = "jsobj \<times> string list"

definition push_reset :: "string \<Rightarrow> string list \<Rightarrow> string list" where
  "push_reset key resetKeys = (if key \<in> set resetKeys then resetKeys else resetKeys @ [key])"

definition reset_to_default :: "jsobj \<Rightarrow> string \<Rightarrow> vstate \<Rightarrow> vstate" where
  "reset_to_default defaults key st =
     (obj_set (fst st) key (obj_get defaults key), push_reset key (snd st))"

definition checkBoolean :: "jsobj \<Rightarrow> string \<Rightarrow> vstate \<Rightarrow> vstate" where
  "checkBoolean defaults key st =
     (if typeof (obj_get (fst st) key) \<noteq> Ty_boolean then reset_to_default defaults key st
      else st)"

definition checkNonNegativeFinite :: "jsobj \<Rightarrow> string \<Rightarrow> vstate \<Rightarrow> vstate" where
  "checkNonNegativeFinite defaults key st =
     (if typeof (obj_get (fst st) key) \<noteq> Ty_number \<or> \<not> isFinite (obj_get (fst st) key)
         \<or> js_lt (obj_get (fst st) key) 0
      then reset_to_default defaults key st
      else st)"

text \<open>An integer field with bounds: \<^verbatim>\<open>stacksize_lega\<close> (1 to 999), \<^verbatim>\<open>fixed_season_index\<close>
  (1 to 7) and \<^verbatim>\<open>random_system_mode\<close> (0 to 1) are checked by the same inline test.\<close>

definition checkIntegerRange :: "jsobj \<Rightarrow> string \<Rightarrow> rat \<Rightarrow> rat \<Rightarrow> vstate \<Rightarrow> vstate" where
  "checkIntegerRange defaults key lo hi st =
     (if typeof (obj_get (fst st) key) \<noteq> Ty_number \<or> \<not> isInteger (obj_get (fst st) key)
         \<or> js_lt (obj_get (fst st) key) lo \<or> js_gt (obj_get (fst st) key) hi
      then reset_to_default defaults key st
      else st)"

text \<open>\<^verbatim>\<open>disablePMC_ChatResponse\<close>: a boolean, or an integer from 1 to 100.\<close>

definition checkPmcChat :: "jsobj \<Rightarrow> vstate \<Rightarrow> vstate" where
  "checkPmcChat defaults st =
     (let pmcChatValue = obj_get (fst st) ''disablePMC_ChatResponse''
      in if typeof pmcChatValue = Ty_number
         then (if \<not> isInteger pmcChatValue \<or> js_lt pmcChatValue 1 \<or> js_gt pmcChatValue 100
               then reset_to_default defaults ''disablePMC_ChatResponse'' st
               else st)
         else if typeof pmcChatValue \<noteq> Ty_boolean
         then reset_to_default defaults ''disablePMC_ChatResponse'' st
         else st)"

definition mainBooleanKeys :: "string list" where
  "mainBooleanKeys =
    [''use_weather_module'', ''use_plant_time_module'', ''use_ammo_module'', ''use_weapon_module'',
     ''LootArmbands'', ''SaveArmbandOnDeath'', ''LootMelee'', ''SaveMeleeOnDeath'',
     ''allow_LegaMoneyCase'', ''removeFirForHideout'', ''disableSeasonEvents'',
     ''weightless_ammo'', ''weightless_ammoboxes'', ''weightless_grenades'',
     ''weapon_inv_shrink'', ''allow_autoupdate_configs'', ''enableDebugLogs'']"

definition validateMainConfig :: "jsobj \<Rightarrow> vstate" where
  "validateMainConfig config =
     (let defaults = defaultMainConfigValues;
          st = fold (checkBoolean defaults) mainBooleanKeys (config, []);
          st = checkPmcChat defaults st;
          st = checkIntegerRange defaults ''stacksize_lega'' 1 999 st;
          st = checkNonNegativeFinite defaults ''leaveItemAtLocationModifier'' st;
          st = checkNonNegativeFinite defaults ''placeBeaconModifier'' st
      in st)"

text \<open>
  \<^verbatim>\<open>exclude_seasons\<close>: not an array, reset to the default; otherwise the entries that are
  not integers from 0 to 6 are filtered out, and when seven or more entries remain, every 6
  is filtered out as well.
\<close>

definition seasonsArrayLength :: nat where
  "seasonsArrayLength = 7"

definition valid_season :: "jsval \<Rightarrow> bool" where
  "valid_season idx = (isInteger idx \<and> js_ge idx 0 \<and> js_lt idx (of_nat seasonsArrayLength))"

definition not_storm :: "jsval \<Rightarrow> bool" where
  "not_storm idx = (idx \<noteq> JNum (Fin 6))"

definition array_items :: "jsval \<Rightarrow> jsval list" where
  "array_items v = (case v of JArr xs \<Rightarrow> xs | _ \<Rightarrow> [])"

definition checkExcludeSeasons :: "jsobj \<Rightarrow> vstate \<Rightarrow> vstate" where
  "checkExcludeSeasons defaults st =
     (if \<not> isArray (obj_get (fst st) ''exclude_seasons'')
      then (obj_set (fst st) ''exclude_seasons'' (JArr (array_items (obj_get defaults ''exclude_seasons''))),
            push_reset ''exclude_seasons'' (snd st))
      else
        (let original = array_items (obj_get (fst st) ''exclude_seasons'');
             filtered = filter valid_season original;
             resetKeys1 = (if length filtered \<noteq> length original
                           then push_reset ''exclude_seasons'' (snd st) else snd st)
         in if length filtered \<ge> seasonsArrayLength
            then (obj_set (fst st) ''exclude_seasons'' (JArr (filter not_storm filtered)),
                  push_reset ''exclude_seasons'' resetKeys1)
            else (obj_set (fst st) ''exclude_seasons'' (JArr filtered), resetKeys1)))"

definition weightKeys :: "string list" where
  "weightKeys = [''Summer'', ''Autumn'', ''Winter'', ''Spring'', ''LateAutumn'', ''EarlySpring'', ''Storm'']"

text \<open>The sum of the weights only feeds a warning and is left out.\<close>

definition validateWeatherConfig :: "jsobj \<Rightarrow> vstate" where
  "validateWeatherConfig config =
     (let defaults = defaultWeatherConfigValues;
          st = fold (checkBoolean defaults)
                 [''use_fixed_season'', ''use_weight_system'', ''use_random_system''] (config, []);
          st = checkIntegerRange defaults ''fixed_season_index'' 1 7 st;
          st = checkIntegerRange defaults ''random_system_mode'' 0 1 st;
          st = checkExcludeSeasons defaults st;
          st = fold (checkNonNegativeFinite defaults) weightKeys st
      in st)"

section \<open>The generic loader\<close>

text \<open>
  \<^verbatim>\<open>loadAndValidateConfigFile\<close>. The arguments of the model: what \<^verbatim>\<open>fs.readFileSync\<close>
  gives (the text, or the error it throws), \<^verbatim>\<open>jsonUtil.deserialize\<close> (a value, or the
  error it throws), the default object, the validator and \<^verbatim>\<open>allowWriteBack\<close>. The logger
  and the debug flag only produce log lines. \<^verbatim>\<open>jsonUtil.clone\<close> is the identity on the
  immutable values of the model.

  The source returns the settings object; the reset keys and \<^verbatim>\<open>fileNeedsUpdate\<close> are
  locals that decide the log line and the write-back. The model returns them with the
  object, and \<open>rewriteAttempted\<close> says whether step 5 (rebuilding and overwriting the file)
  is entered; the rebuilt text itself is not modelled.
\<close>

record load_result =
  config :: jsobj
  resetKeys :: "string list"
  fileNeedsUpdate :: bool
  rewriteAttempted :: bool

definition use_defaults :: "jsobj \<Rightarrow> load_result" where
  "use_defaults defaultConfigValues =
     \<lparr>config = defaultConfigValues, resetKeys = [], fileNeedsUpdate = False,
      rewriteAttempted = False\<rparr>"

text \<open>\<^verbatim>\<open>if (loadedConfig)\<close>: the falsy values are \<^verbatim>\<open>undefined\<close>, \<^verbatim>\<open>null\<close>, \<^verbatim>\<open>false\<close>, zero,
  NaN and the empty string.\<close>

fun truthy :: "jsval \<Rightarrow> bool" where
  "truthy JUndefined = False"
| "truthy JNull = False"
| "truthy (JBool b) = b"
| "truthy (JNum n) = (n \<noteq> Fin 0 \<and> n \<noteq> NaN)"
| "truthy (JStr s) = (s \<noteq> [])"
| "truthy (JArr xs) = True"
| "truthy (JObj ms) = True"

text \<open>
  The own enumerable properties that \<^verbatim>\<open>for (const key in loadedConfig)\<close> and
  \<^verbatim>\<open>hasOwnProperty\<close> see: the members of an object, the indices of an array or of a
  string (written in decimal), none for a number or a boolean. (The \<^verbatim>\<open>length\<close> of an
  array or a string, an own property that is not enumerable and no key of either
  descriptor, is left out.)
\<close>

fun decimal :: "nat \<Rightarrow> string" where
  "decimal n = (if n < 10 then [char_of (48 + n)] else decimal (n div 10) @ [char_of (48 + n mod 10)])"

declare decimal.simps [simp del]

definition own_props :: "jsval \<Rightarrow> jsobj" where
  "own_props v =
     (case v of
        JObj ms \<Rightarrow> ms
      | JArr xs \<Rightarrow> zip (map decimal [0 ..< length xs]) xs
      | JStr cs \<Rightarrow> zip (map decimal [0 ..< length cs]) (map (\<lambda>c. JStr [c]) cs)
      | _ \<Rightarrow> [])"

text \<open>One round of the merge loop: a key of the file that is a key of the defaults
  overwrites the value in the merged object; any other key is ignored.\<close>

definition merge_key :: "jsobj \<Rightarrow> string list \<Rightarrow> string \<Rightarrow> jsobj \<Rightarrow> jsobj" where
  "merge_key loaded defaultKeys key mergedConfig =
     (if key \<in> set defaultKeys \<and> hasOwnProperty loaded key
      then obj_set mergedConfig key (obj_get loaded key)
      else mergedConfig)"

definition merge_config :: "jsval \<Rightarrow> jsobj \<Rightarrow> jsobj" where
  "merge_config loadedConfig defaultConfigValues =
     (if truthy loadedConfig
      then fold (merge_key (own_props loadedConfig) (keys defaultConfigValues))
             (keys (own_props loadedConfig)) defaultConfigValues
      else defaultConfigValues)"

text \<open>Whether the merge alone asks for an update of the file: a default key is missing
  from the file, or the file gave no object at all.\<close>

definition missing_key :: "jsobj \<Rightarrow> string \<Rightarrow> bool" where
  "missing_key loaded defaultKey = (\<not> hasOwnProperty loaded defaultKey)"

definition merge_needs_update :: "jsval \<Rightarrow> jsobj \<Rightarrow> bool" where
  "merge_needs_update loadedConfig defaultConfigValues =
     (if truthy loadedConfig
      then list_ex (missing_key (own_props loadedConfig)) (keys defaultConfigValues)
      else True)"

definition merge_and_validate ::
    "jsval \<Rightarrow> jsobj \<Rightarrow> (jsobj \<Rightarrow> vstate) \<Rightarrow> bool \<Rightarrow> load_result" where
  "merge_and_validate loadedConfig defaultConfigValues validationFunction allowWriteBack =
     (let mergedConfig = merge_config loadedConfig defaultConfigValues;
          validated = validationFunction mergedConfig;
          needsUpdate = (merge_needs_update loadedConfig defaultConfigValues \<or> snd validated \<noteq> [])
      in \<lparr>config = fst validated, resetKeys = snd validated, fileNeedsUpdate = needsUpdate,
          rewriteAttempted = (allowWriteBack \<and> needsUpdate)\<rparr>)"

definition loadAndValidateConfigFile ::
    "error + string \<Rightarrow> (string \<Rightarrow> error + jsval) \<Rightarrow> jsobj \<Rightarrow> (jsobj \<Rightarrow> vstate) \<Rightarrow> bool
      \<Rightarrow> load_result" where
  "loadAndValidateConfigFile readFileSync deserialize defaultConfigValues validationFunction
       allowWriteBack =
     (case readFileSync of
        Inl readError \<Rightarrow> use_defaults defaultConfigValues
      | Inr rawContent \<Rightarrow>
          (let processedContent = fixTrailingCommas (stripJsonComments rawContent)
           in if processedContent = [] \<or> trim processedContent = []
              then use_defaults defaultConfigValues
              else (case deserialize processedContent of
                      Inl parseError \<Rightarrow> use_defaults defaultConfigValues
                    | Inr loadedConfig \<Rightarrow>
                        merge_and_validate loadedConfig defaultConfigValues validationFunction
                          allowWriteBack)))"



section \<open>Evaluating the sanitizer and the parser on a text\<close>


















lemma trim_end_Nil_iff: "trim_end s = [] \<longleftrightarrow> list_all is_space s"
  by (induction s) auto

lemma trim_Nil_iff: "trim s = [] \<longleftrightarrow> list_all is_space s"
  unfolding trim_def trim_end_Nil_iff by (induction s) auto









































section \<open>A text that parses is not blank\<close>

lemma lex_blank: "list_all is_space s \<Longrightarrow> lex s = [] \<or> hd (lex s) = TBad"
proof (induction s)
  case Nil
  then show ?case by simp
next
  case (Cons c cs)
  then have c: "is_space c" and ih: "lex cs = [] \<or> hd (lex cs) = TBad" by simp_all
  show ?case
  proof (cases "is_json_ws c")
    case True
    with ih show ?thesis by simp
  next
    case False
    with c have "c = CHR 0x0B \<or> c = CHR 0x0C \<or> c = CHR 0xA0"
      by (auto simp: is_space_def is_json_ws_def)
    then have "\<not> is_num_char c" "\<not> is_word_char c" "c \<noteq> CHR 0x22" "punct_token c = TBad"
      by (auto simp: is_num_char_def is_word_char_def punct_token_def)
    with False show ?thesis by simp
  qed
qed

lemma json_parse_nonblank:
  assumes "json_parse s = Inr v"
  shows "\<not> list_all is_space s"
proof
  assume "list_all is_space s"
  then have "lex s = [] \<or> hd (lex s) = TBad" by (rule lex_blank)
  then have "run (Some (Value, [])) (lex s) = None"
    by (cases "lex s") auto
  with assms show False by (simp add: json_parse_def)
qed

lemma load_parsed:
  assumes "json_parse (fixTrailingCommas (stripJsonComments raw)) = Inr v"
  shows "loadAndValidateConfigFile (Inr raw) json_parse d val a = merge_and_validate v d val a"
proof -
  have nb: "\<not> list_all is_space (fixTrailingCommas (stripJsonComments raw))"
    using assms by (rule json_parse_nonblank)
  then have "fixTrailingCommas (stripJsonComments raw) \<noteq> []" by auto
  moreover from nb have "trim (fixTrailingCommas (stripJsonComments raw)) \<noteq> []"
    by (simp add: trim_Nil_iff)
  ultimately show ?thesis
    using assms by (simp add: loadAndValidateConfigFile_def Let_def)
qed

section \<open>Loading the bundled templates\<close>




section \<open>Properties of the sanitizer\<close>














text \<open>
  Claim C10. The trailing-comma pattern also matches inside a string literal: the text
  \<^verbatim>\<open>{"k": "a, ]"}\<close> is valid JSON with the string value \<^verbatim>\<open>a, ]\<close>, and after the sanitizer
  pipeline it parses with the string value \<^verbatim>\<open>a]\<close>.
\<close>

theorem fixTrailingCommas_alters_string:
  "json_parse ''{\"k\": \"a, ]\"}'' = Inr (JObj [(''k'', JStr ''a, ]'')])
   \<and> fixTrailingCommas ''{\"k\": \"a, ]\"}'' = ''{\"k\": \"a]\"}''
   \<and> json_parse (fixTrailingCommas (stripJsonComments ''{\"k\": \"a, ]\"}''))
       = Inr (JObj [(''k'', JStr ''a]'')])"
  by code_simp

text \<open>
  Claim C6 fails on the code. A \<^verbatim>\<open>//\<close> inside a string value is only spared when the
  character before it is \<^verbatim>\<open>:\<close>, a quote or a backslash: the valid JSON text
  \<^verbatim>\<open>{"k": "a //b"}\<close> loses the rest of its line and no longer parses. A block comment
  inside a string value is removed too, and a line comment that directly follows a colon
  is not removed. The sanitizer of version 1.0.1 spares a \<^verbatim>\<open>//\<close> only behind a backslash and
  cuts the URL of \<^verbatim>\<open>{"u": "http://example.com"}\<close> as well.
\<close>

theorem stripJsonComments_cuts_string:
  "json_parse ''{\"k\": \"a //b\"}'' = Inr (JObj [(''k'', JStr ''a //b'')])
   \<and> stripJsonComments ''{\"k\": \"a //b\"}'' = ''{\"k\": \"a''
   \<and> json_parse (stripJsonComments ''{\"k\": \"a //b\"}'') = Inl SyntaxError
   \<and> stripJsonComments ''{\"k\": \"a /* b */ c\"}'' = ''{\"k\": \"a  c\"}''
   \<and> stripJsonComments ''{\"k\":// one\<newline>1}'' = ''{\"k\":// one\<newline>1}''
   \<and> stripJsonComments ''{\"u\": \"http://example.com\"}'' = ''{\"u\": \"http://example.com\"}''
   \<and> legacy_stripJsonComments None ''{\"u\": \"http://example.com\"}'' = ''{\"u\": \"http:''"
  by code_simp

section \<open>Properties of the validators\<close>

text \<open>
  Every check of a validator has one shape: it looks at one field and either leaves the
  state alone or overwrites the field and records its key. A check is the key with a
  function that returns the replacement value, if any.
\<close>

type_synonym check = "string \<times> (jsval \<Rightarrow> jsval option)"

definition apply_check :: "check \<Rightarrow> vstate \<Rightarrow> vstate" where
  "apply_check c st =
     (case snd c (obj_get (fst st) (fst c)) of
        None \<Rightarrow> st
      | Some v \<Rightarrow> (obj_set (fst st) (fst c) v, push_reset (fst c) (snd st)))"

definition fix_boolean :: "jsobj \<Rightarrow> string \<Rightarrow> jsval \<Rightarrow> jsval option" where
  "fix_boolean d k v = (if typeof v = Ty_boolean then None else Some (obj_get d k))"

definition fix_nonneg :: "jsobj \<Rightarrow> string \<Rightarrow> jsval \<Rightarrow> jsval option" where
  "fix_nonneg d k v = (if isFinite v \<and> js_ge v 0 then None else Some (obj_get d k))"

definition fix_int_range :: "jsobj \<Rightarrow> string \<Rightarrow> rat \<Rightarrow> rat \<Rightarrow> jsval \<Rightarrow> jsval option" where
  "fix_int_range d k lo hi v =
     (if isInteger v \<and> js_ge v lo \<and> js_le v hi then None else Some (obj_get d k))"

definition fix_pmc :: "jsobj \<Rightarrow> jsval \<Rightarrow> jsval option" where
  "fix_pmc d v =
     (if typeof v = Ty_boolean \<or> (isInteger v \<and> js_ge v 1 \<and> js_le v 100) then None
      else Some (obj_get d ''disablePMC_ChatResponse''))"

definition fix_exclude :: "jsobj \<Rightarrow> jsval \<Rightarrow> jsval option" where
  "fix_exclude d v =
     (if isArray v
      then (if seasonsArrayLength \<le> length (filter valid_season (array_items v))
            then Some (JArr (filter not_storm (filter valid_season (array_items v))))
            else if length (filter valid_season (array_items v)) = length (array_items v)
            then None
            else Some (JArr (filter valid_season (array_items v))))
      else Some (JArr (array_items (obj_get d ''exclude_seasons''))))"

lemma isInteger_cases: "isInteger v \<Longrightarrow> \<exists>r. v = JNum (Fin r)"
  by (cases v rule: isInteger.cases) auto

lemma isFinite_cases: "isFinite v \<Longrightarrow> \<exists>r. v = JNum (Fin r)"
  by (cases v rule: isFinite.cases) auto

lemma typeof_number: "typeof v = Ty_number \<longleftrightarrow> (\<exists>n. v = JNum n)"
  by (cases v) auto

lemma checkBoolean_check: "checkBoolean d k st = apply_check (k, fix_boolean d k) st"
  by (simp add: checkBoolean_def apply_check_def fix_boolean_def reset_to_default_def)

lemma checkNonNegativeFinite_check:
  "checkNonNegativeFinite d k st = apply_check (k, fix_nonneg d k) st"
proof (cases "isFinite (obj_get (fst st) k)")
  case True
  then obtain r where "obj_get (fst st) k = JNum (Fin r)" using isFinite_cases by blast
  then show ?thesis
    by (auto simp: checkNonNegativeFinite_def apply_check_def fix_nonneg_def reset_to_default_def)
next
  case False
  then show ?thesis
    by (simp add: checkNonNegativeFinite_def apply_check_def fix_nonneg_def reset_to_default_def)
qed

lemma checkIntegerRange_check:
  "checkIntegerRange d k lo hi st = apply_check (k, fix_int_range d k lo hi) st"
proof (cases "isInteger (obj_get (fst st) k)")
  case True
  then obtain r where "obj_get (fst st) k = JNum (Fin r)" using isInteger_cases by blast
  then show ?thesis
    by (auto simp: checkIntegerRange_def apply_check_def fix_int_range_def reset_to_default_def)
next
  case False
  then show ?thesis
    by (simp add: checkIntegerRange_def apply_check_def fix_int_range_def reset_to_default_def)
qed

lemma checkPmcChat_check:
  "checkPmcChat d st = apply_check (''disablePMC_ChatResponse'', fix_pmc d) st"
proof (cases "isInteger (obj_get (fst st) ''disablePMC_ChatResponse'')")
  case True
  then obtain r where "obj_get (fst st) ''disablePMC_ChatResponse'' = JNum (Fin r)"
    using isInteger_cases by blast
  then show ?thesis
    by (auto simp: checkPmcChat_def apply_check_def fix_pmc_def reset_to_default_def Let_def)
next
  case False
  then show ?thesis
    by (auto simp: checkPmcChat_def apply_check_def fix_pmc_def reset_to_default_def Let_def)
qed

lemma push_reset_idem: "push_reset k (push_reset k rk) = push_reset k rk"
  by (simp add: push_reset_def)

lemma obj_get_hasOwn: "obj_get ms k \<noteq> JUndefined \<Longrightarrow> hasOwnProperty ms k"
  by (induction ms) auto

lemma obj_set_same: "hasOwnProperty ms k \<Longrightarrow> obj_set ms k (obj_get ms k) = ms"
  by (induction ms) auto

lemma filter_same_length: "length (filter P xs) = length xs \<Longrightarrow> filter P xs = xs"
  by (metis filter_True length_filter_less less_irrefl_nat)

lemma checkExcludeSeasons_check:
  "checkExcludeSeasons d st = apply_check (''exclude_seasons'', fix_exclude d) st"
proof (cases "isArray (obj_get (fst st) ''exclude_seasons'')")
  case False
  then show ?thesis
    by (simp add: checkExcludeSeasons_def apply_check_def fix_exclude_def)
next
  case True
  then obtain xs where v: "obj_get (fst st) ''exclude_seasons'' = JArr xs"
    by (cases "obj_get (fst st) ''exclude_seasons''") auto
  then have own: "hasOwnProperty (fst st) ''exclude_seasons''"
    by (intro obj_get_hasOwn) simp
  have same: "length (filter valid_season xs) = length xs \<Longrightarrow>
      obj_set (fst st) ''exclude_seasons'' (JArr (filter valid_season xs)) = fst st"
    using obj_set_same [OF own] v by (simp add: filter_same_length)
  show ?thesis
    using v same
    by (cases st)
       (auto simp: checkExcludeSeasons_def apply_check_def fix_exclude_def array_items_def
          Let_def push_reset_idem)
qed

lemma obj_get_set: "obj_get (obj_set ms k v) k' = (if k' = k then v else obj_get ms k')"
  by (induction ms) auto

lemma apply_check_other:
  "fst c \<noteq> k \<Longrightarrow> obj_get (fst (apply_check c st)) k = obj_get (fst st) k"
  by (simp add: apply_check_def obj_get_set split: option.splits)

lemma apply_check_same:
  "obj_get (fst (apply_check c st)) (fst c) =
     (case snd c (obj_get (fst st) (fst c)) of None \<Rightarrow> obj_get (fst st) (fst c) | Some v \<Rightarrow> v)"
  by (simp add: apply_check_def obj_get_set split: option.splits)

lemma apply_check_keys:
  "fst c \<notin> set rk \<Longrightarrow>
   snd (apply_check c (cfg, rk)) = rk @ (if snd c (obj_get cfg (fst c)) = None then [] else [fst c])"
  by (auto simp: apply_check_def push_reset_def split: option.splits)

definition failing :: "jsobj \<Rightarrow> check \<Rightarrow> bool" where
  "failing cfg c = (snd c (obj_get cfg (fst c)) \<noteq> None)"

lemma fold_checks_get_other:
  "k \<notin> fst ` set cs \<Longrightarrow> obj_get (fst (fold apply_check cs st)) k = obj_get (fst st) k"
  by (induction cs arbitrary: st) (auto simp: apply_check_other)

lemma fold_checks_keys:
  "distinct (map fst cs) \<Longrightarrow> set rk \<inter> fst ` set cs = {} \<Longrightarrow>
   snd (fold apply_check cs (cfg, rk)) = rk @ map fst (filter (failing cfg) cs)"
proof (induction cs arbitrary: cfg rk)
  case Nil
  show ?case by simp
next
  case (Cons c cs)
  obtain cfg1 rk1 where st1: "apply_check c (cfg, rk) = (cfg1, rk1)" by (cases "apply_check c (cfg, rk)")
  have notin: "fst c \<notin> set rk" using Cons.prems(2) by auto
  have rk1: "rk1 = rk @ (if failing cfg c then [fst c] else [])"
    using apply_check_keys [OF notin, of cfg] st1 by (auto simp: failing_def)
  have same: "\<And>c'. c' \<in> set cs \<Longrightarrow> failing cfg1 c' = failing cfg c'"
  proof -
    fix c' assume "c' \<in> set cs"
    then have "fst c \<noteq> fst c'" using Cons.prems(1) by auto
    then have "obj_get cfg1 (fst c') = obj_get cfg (fst c')"
      using apply_check_other [of c "fst c'" "(cfg, rk)"] st1 by simp
    then show "failing cfg1 c' = failing cfg c'" by (simp add: failing_def)
  qed
  have d: "distinct (map fst cs)" using Cons.prems(1) by simp
  have nc: "fst c \<notin> set (map fst cs)" using Cons.prems(1) by simp
  have "\<forall>x\<in>set cs. fst x \<noteq> fst c"
  proof
    fix x assume "x \<in> set cs"
    then have "fst x \<in> set (map fst cs)" by simp
    with nc show "fst x \<noteq> fst c" by metis
  qed
  then have disj: "set rk1 \<inter> fst ` set cs = {}" using Cons.prems(2) rk1 by auto
  have "snd (fold apply_check cs (cfg1, rk1)) = rk1 @ map fst (filter (failing cfg1) cs)"
    by (rule Cons.IH [OF d disj])
  also have "filter (failing cfg1) cs = filter (failing cfg) cs"
    using same by (intro filter_cong) auto
  finally show ?case using st1 rk1 by simp
qed

lemma fold_checks_get:
  "distinct (map fst cs) \<Longrightarrow> (k, f) \<in> set cs \<Longrightarrow>
   obj_get (fst (fold apply_check cs st)) k =
     (case f (obj_get (fst st) k) of None \<Rightarrow> obj_get (fst st) k | Some v \<Rightarrow> v)"
proof (induction cs arbitrary: st)
  case Nil
  then show ?case by simp
next
  case (Cons c cs)
  show ?case
  proof (cases "c = (k, f)")
    case True
    then have "k \<notin> fst ` set cs" using Cons.prems(1) by auto
    then have "obj_get (fst (fold apply_check cs (apply_check c st))) k
        = obj_get (fst (apply_check c st)) k"
      by (rule fold_checks_get_other)
    then show ?thesis using True apply_check_same [of c st] by (auto split: option.splits)
  next
    case False
    then have in_cs: "(k, f) \<in> set cs" using Cons.prems(2) by simp
    then have "fst c \<noteq> k" using Cons.prems(1) by (auto simp: image_iff)
    then have "obj_get (fst (apply_check c st)) k = obj_get (fst st) k"
      by (rule apply_check_other)
    moreover have "distinct (map fst cs)" using Cons.prems(1) by simp
    ultimately show ?thesis using Cons.IH [OF _ in_cs, of "apply_check c st"]
      by (auto split: option.splits)
  qed
qed

definition main_checks :: "check list" where
  "main_checks =
     map (\<lambda>k. (k, fix_boolean defaultMainConfigValues k)) mainBooleanKeys @
     [(''disablePMC_ChatResponse'', fix_pmc defaultMainConfigValues),
      (''stacksize_lega'', fix_int_range defaultMainConfigValues ''stacksize_lega'' 1 999),
      (''leaveItemAtLocationModifier'', fix_nonneg defaultMainConfigValues ''leaveItemAtLocationModifier''),
      (''placeBeaconModifier'', fix_nonneg defaultMainConfigValues ''placeBeaconModifier'')]"

definition weather_checks :: "check list" where
  "weather_checks =
     map (\<lambda>k. (k, fix_boolean defaultWeatherConfigValues k))
       [''use_fixed_season'', ''use_weight_system'', ''use_random_system''] @
     [(''fixed_season_index'', fix_int_range defaultWeatherConfigValues ''fixed_season_index'' 1 7),
      (''random_system_mode'', fix_int_range defaultWeatherConfigValues ''random_system_mode'' 0 1),
      (''exclude_seasons'', fix_exclude defaultWeatherConfigValues)] @
     map (\<lambda>k. (k, fix_nonneg defaultWeatherConfigValues k)) weightKeys"

lemma fold_checkBoolean:
  "fold (checkBoolean d) ks st = fold apply_check (map (\<lambda>k. (k, fix_boolean d k)) ks) st"
  by (induction ks arbitrary: st) (auto simp: checkBoolean_check)

lemma fold_checkNonNegativeFinite:
  "fold (checkNonNegativeFinite d) ks st = fold apply_check (map (\<lambda>k. (k, fix_nonneg d k)) ks) st"
  by (induction ks arbitrary: st) (auto simp: checkNonNegativeFinite_check)

lemma validateMainConfig_checks: "validateMainConfig cfg = fold apply_check main_checks (cfg, [])"
  by (simp add: validateMainConfig_def main_checks_def Let_def fold_checkBoolean
      checkPmcChat_check checkIntegerRange_check checkNonNegativeFinite_check)

lemma validateWeatherConfig_checks:
  "validateWeatherConfig cfg = fold apply_check weather_checks (cfg, [])"
  by (simp add: validateWeatherConfig_def weather_checks_def Let_def checkBoolean_check
      fold_checkNonNegativeFinite checkExcludeSeasons_check checkIntegerRange_check)

lemma main_checks_distinct: "distinct (map fst main_checks)"
  by (simp add: main_checks_def mainBooleanKeys_def)

lemma weather_checks_distinct: "distinct (map fst weather_checks)"
  by (simp add: weather_checks_def weightKeys_def)


lemma fold_checks_mem:
  assumes "distinct (map fst cs)" and "(k, f) \<in> set cs"
  shows "k \<in> set (snd (fold apply_check cs (cfg, []))) \<longleftrightarrow> f (obj_get cfg k) \<noteq> None"
proof -
  have keys: "snd (fold apply_check cs (cfg, [])) = map fst (filter (failing cfg) cs)"
    using fold_checks_keys [OF assms(1), of "[]" cfg] by simp
  have uniq: "\<And>c. c \<in> set cs \<Longrightarrow> fst c = k \<Longrightarrow> c = (k, f)"
    using assms by (metis eq_key_imp_eq_value prod.collapse)
  show ?thesis
  proof
    assume "k \<in> set (snd (fold apply_check cs (cfg, [])))"
    then obtain c where "c \<in> set cs" "failing cfg c" "fst c = k" using keys by auto
    then show "f (obj_get cfg k) \<noteq> None" using uniq [of c] by (auto simp: failing_def)
  next
    assume "f (obj_get cfg k) \<noteq> None"
    then have "failing cfg (k, f)" by (simp add: failing_def)
    then have "(k, f) \<in> set (filter (failing cfg) cs)" using assms(2) by simp
    then have "k \<in> set (map fst (filter (failing cfg) cs))" by force
    then show "k \<in> set (snd (fold apply_check cs (cfg, [])))" using keys by simp
  qed
qed

text \<open>
  The order in which each validator looks at the fields, and the constraint of each field
  in the words of the specification: a boolean; an integer within bounds; a finite number
  that is not negative; for \<^verbatim>\<open>disablePMC_ChatResponse\<close> a boolean or an integer from 1 to
  100; for \<^verbatim>\<open>exclude_seasons\<close> an array of fewer than seven entries, all integers from
  0 to 6.
\<close>

definition main_check_order :: "string list" where
  "main_check_order = mainBooleanKeys @
     [''disablePMC_ChatResponse'', ''stacksize_lega'', ''leaveItemAtLocationModifier'',
      ''placeBeaconModifier'']"


definition pmc_chat_ok :: "jsval \<Rightarrow> bool" where
  "pmc_chat_ok v = (typeof v = Ty_boolean \<or> (isInteger v \<and> js_ge v 1 \<and> js_le v 100))"










lemma fix_pmc_None: "fix_pmc d v = None \<longleftrightarrow> pmc_chat_ok v"
  by (simp add: fix_pmc_def pmc_chat_ok_def)


lemma main_checks_keys: "map fst main_checks = main_check_order"
  by (simp add: main_checks_def main_check_order_def comp_def)














text \<open>
  The validation of \<^verbatim>\<open>disablePMC_ChatResponse\<close> in the loader of version 1.0.1
  (\<^verbatim>\<open>loadOrCreateConfig\<close> in \<^verbatim>\<open>configCreation.ts\<close>), which returns the settings object alone:
  a number that is NaN or outside 1 to 100 becomes \<^verbatim>\<open>false\<close>, any other number is floored.
\<close>

fun math_floor :: "jsval \<Rightarrow> jsval" where
  "math_floor (JNum (Fin r)) = JNum (Fin (of_int \<lfloor>r\<rfloor>))"
| "math_floor (JNum n) = JNum n"
| "math_floor v = JNum NaN"

definition legacyValidatePmcChat :: "jsval \<Rightarrow> jsval" where
  "legacyValidatePmcChat pmcChatValue =
     (if typeof pmcChatValue = Ty_number
      then (if pmcChatValue = JNum NaN \<or> js_lt pmcChatValue 1 \<or> js_gt pmcChatValue 100
            then JBool False
            else math_floor pmcChatValue)
      else if typeof pmcChatValue \<noteq> Ty_boolean then JBool False
      else pmcChatValue)"

lemma main_check_pmc:
  "(''disablePMC_ChatResponse'', fix_pmc defaultMainConfigValues) \<in> set main_checks"
  by (simp add: main_checks_def)

lemma default_pmc: "obj_get defaultMainConfigValues ''disablePMC_ChatResponse'' = JBool False"
  by (simp add: defaultMainConfigValues_def)

text \<open>
  Claim C3, as amended. \<^verbatim>\<open>validateMainConfig\<close> keeps \<^verbatim>\<open>disablePMC_ChatResponse\<close> when it
  is a boolean or an integer from 1 to 100, and otherwise resets it to \<^verbatim>\<open>false\<close> and
  reports the key: \<^verbatim>\<open>true\<close> and 55 are kept; 150, the string \<^verbatim>\<open>yes\<close> and the in-range
  float 55.5 are reset. Only the loader of version 1.0.1 floors 55.5 to 55.
\<close>

theorem pmc_chat_validation:
  "obj_get (fst (validateMainConfig cfg)) ''disablePMC_ChatResponse'' =
     (if pmc_chat_ok (obj_get cfg ''disablePMC_ChatResponse'')
      then obj_get cfg ''disablePMC_ChatResponse'' else JBool False)
   \<and> (''disablePMC_ChatResponse'' \<in> set (snd (validateMainConfig cfg)))
       = (\<not> pmc_chat_ok (obj_get cfg ''disablePMC_ChatResponse''))
   \<and> pmc_chat_ok (JBool True) \<and> pmc_chat_ok (JNum (Fin 55))
   \<and> \<not> pmc_chat_ok (JNum (Fin 150)) \<and> \<not> pmc_chat_ok (JStr ''yes'')
   \<and> \<not> pmc_chat_ok (JNum (Fin (111 / 2)))
   \<and> legacyValidatePmcChat (JNum (Fin (111 / 2))) = JNum (Fin 55)"
proof -
  have v: "obj_get (fst (validateMainConfig cfg)) ''disablePMC_ChatResponse'' =
     (if pmc_chat_ok (obj_get cfg ''disablePMC_ChatResponse'')
      then obj_get cfg ''disablePMC_ChatResponse'' else JBool False)"
    using fold_checks_get [OF main_checks_distinct main_check_pmc, of "(cfg, [])"]
    by (auto simp: validateMainConfig_checks fix_pmc_def pmc_chat_ok_def default_pmc
        split: option.splits if_splits)
  have m: "(''disablePMC_ChatResponse'' \<in> set (snd (validateMainConfig cfg)))
       = (\<not> pmc_chat_ok (obj_get cfg ''disablePMC_ChatResponse''))"
    using fold_checks_mem [OF main_checks_distinct main_check_pmc, of cfg]
    by (simp add: validateMainConfig_checks fix_pmc_None del: not_None_eq)
  have e: "pmc_chat_ok (JBool True) \<and> pmc_chat_ok (JNum (Fin 55))
      \<and> \<not> pmc_chat_ok (JNum (Fin 150)) \<and> \<not> pmc_chat_ok (JStr ''yes'')
      \<and> \<not> pmc_chat_ok (JNum (Fin (111 / 2)))
      \<and> legacyValidatePmcChat (JNum (Fin (111 / 2))) = JNum (Fin 55)"
    by code_simp
  from v m e show ?thesis by blast
qed

text \<open>The in-range float 55.5 is reset and reported, not floored.\<close>

theorem pmc_chat_float_is_reset:
  "obj_get (fst (validateMainConfig
       (obj_set defaultMainConfigValues ''disablePMC_ChatResponse'' (JNum (Fin (111 / 2))))))
     ''disablePMC_ChatResponse'' = JBool False
   \<and> snd (validateMainConfig
       (obj_set defaultMainConfigValues ''disablePMC_ChatResponse'' (JNum (Fin (111 / 2)))))
     = [''disablePMC_ChatResponse'']"
  by code_simp

theorem pmc_chat_validation_witness:
  "obj_get (fst (validateMainConfig [(''disablePMC_ChatResponse'', JBool True)]))
     ''disablePMC_ChatResponse'' = JBool True
   \<and> obj_get (fst (validateMainConfig [(''disablePMC_ChatResponse'', JNum (Fin 55))]))
     ''disablePMC_ChatResponse'' = JNum (Fin 55)
   \<and> obj_get (fst (validateMainConfig [(''disablePMC_ChatResponse'', JNum (Fin 150))]))
     ''disablePMC_ChatResponse'' = JBool False
   \<and> obj_get (fst (validateMainConfig [(''disablePMC_ChatResponse'', JStr ''yes'')]))
     ''disablePMC_ChatResponse'' = JBool False
   \<and> obj_get (fst (validateMainConfig [(''disablePMC_ChatResponse'', JNum (Fin (111 / 2)))]))
     ''disablePMC_ChatResponse'' = JBool False"
  using pmc_chat_validation [of "[(''disablePMC_ChatResponse'', JBool True)]"]
    pmc_chat_validation [of "[(''disablePMC_ChatResponse'', JNum (Fin 55))]"]
    pmc_chat_validation [of "[(''disablePMC_ChatResponse'', JNum (Fin 150))]"]
    pmc_chat_validation [of "[(''disablePMC_ChatResponse'', JStr ''yes'')]"]
    pmc_chat_validation [of "[(''disablePMC_ChatResponse'', JNum (Fin (111 / 2)))]"]
  by simp

subsection \<open>The season exclusion list\<close>

lemma valid_season_iff: "valid_season v \<longleftrightarrow> (\<exists>i::nat. i \<le> 6 \<and> v = JNum (Fin (of_nat i)))"
proof
  assume vs: "valid_season v"
  then obtain r where v: "v = JNum (Fin r)"
    using isInteger_cases by (auto simp: valid_season_def)
  with vs have r: "of_int \<lfloor>r\<rfloor> = r" "0 \<le> r" "r < 7"
    by (simp_all add: valid_season_def seasonsArrayLength_def)
  define n where "n = \<lfloor>r\<rfloor>"
  have "0 \<le> n" "n < 7" using r by (simp_all add: n_def floor_less_iff)
  then have "nat n \<le> 6" "of_nat (nat n) = (of_int n :: rat)" by simp_all
  with r v show "\<exists>i::nat. i \<le> 6 \<and> v = JNum (Fin (of_nat i))" unfolding n_def by metis
next
  assume "\<exists>i::nat. i \<le> 6 \<and> v = JNum (Fin (of_nat i))"
  then show "valid_season v"
    by (auto simp: valid_season_def seasonsArrayLength_def)
qed

lemma weather_check_exclude:
  "(''exclude_seasons'', fix_exclude defaultWeatherConfigValues) \<in> set weather_checks"
  by (simp add: weather_checks_def)

lemma all_seasons_length:
  assumes "\<forall>i::nat. i \<le> 6 \<longrightarrow> JNum (Fin (of_nat i)) \<in> set xs"
  shows "7 \<le> length (filter valid_season xs)"
proof -
  let ?f = "\<lambda>i::nat. JNum (Fin (of_nat i))"
  have inj: "inj_on ?f {0..6}" by (auto simp: inj_on_def)
  have "?f ` {0..6} \<subseteq> set (filter valid_season xs)"
    using assms by (auto simp: valid_season_iff)
  then have "card (?f ` {0..6}) \<le> card (set (filter valid_season xs))"
    by (intro card_mono) auto
  also have "\<dots> \<le> length (filter valid_season xs)" by (rule card_length)
  finally show ?thesis using card_image [OF inj] by simp
qed

text \<open>
  Claim C1. When \<^verbatim>\<open>exclude_seasons\<close> is an array, the validator keeps the entries that
  are integers from 0 to 6 and drops the others; the key is reported when an entry was
  dropped; and when the array holds every index from 0 to 6, exactly the entries equal to
  6 are removed from the kept ones as well, and the key is reported.
\<close>

theorem exclude_seasons_validation:
  assumes "obj_get cfg ''exclude_seasons'' = JArr xs"
  shows "obj_get (fst (validateWeatherConfig cfg)) ''exclude_seasons'' =
           JArr (if 7 \<le> length (filter valid_season xs)
                 then filter not_storm (filter valid_season xs) else filter valid_season xs)
     \<and> (length (filter valid_season xs) \<noteq> length xs
          \<longrightarrow> ''exclude_seasons'' \<in> set (snd (validateWeatherConfig cfg)))
     \<and> ((\<forall>i::nat. i \<le> 6 \<longrightarrow> JNum (Fin (of_nat i)) \<in> set xs)
          \<longrightarrow> obj_get (fst (validateWeatherConfig cfg)) ''exclude_seasons'' =
                JArr (filter not_storm (filter valid_season xs))
              \<and> ''exclude_seasons'' \<in> set (snd (validateWeatherConfig cfg)))
     \<and> (\<forall>v. valid_season v \<longleftrightarrow> (\<exists>i::nat. i \<le> 6 \<and> v = JNum (Fin (of_nat i))))
     \<and> (\<forall>v. not_storm v \<longleftrightarrow> v \<noteq> JNum (Fin 6))"
proof -
  let ?k = "''exclude_seasons''"
  let ?kept = "filter valid_season xs"
  have fx: "fix_exclude defaultWeatherConfigValues (JArr xs) =
      (if 7 \<le> length ?kept then Some (JArr (filter not_storm ?kept))
       else if length ?kept = length xs then None else Some (JArr ?kept))"
    by (simp add: fix_exclude_def array_items_def seasonsArrayLength_def)
  have same: "length ?kept = length xs \<Longrightarrow> ?kept = xs" by (rule filter_same_length)
  have v: "obj_get (fst (validateWeatherConfig cfg)) ?k =
      JArr (if 7 \<le> length ?kept then filter not_storm ?kept else ?kept)"
    using fold_checks_get [OF weather_checks_distinct weather_check_exclude, of "(cfg, [])"]
      assms fx same
    by (auto simp: validateWeatherConfig_checks)
  have m: "?k \<in> set (snd (validateWeatherConfig cfg)) \<longleftrightarrow>
      7 \<le> length ?kept \<or> length ?kept \<noteq> length xs"
    using fold_checks_mem [OF weather_checks_distinct weather_check_exclude, of cfg] assms fx
    by (auto simp: validateWeatherConfig_checks)
  have a: "(\<forall>i::nat. i \<le> 6 \<longrightarrow> JNum (Fin (of_nat i)) \<in> set xs) \<Longrightarrow> 7 \<le> length ?kept"
    by (rule all_seasons_length)
  show ?thesis
    using v m a valid_season_iff by (auto simp: not_storm_def)
qed

lemma all_seven: "i \<le> 6 \<Longrightarrow> (i::nat) \<in> {0, 1, 2, 3, 4, 5, 6}"
  by auto

theorem exclude_seasons_witness:
  "obj_get (fst (validateWeatherConfig
      [(''exclude_seasons'', JArr (map (\<lambda>i. JNum (Fin i)) [0, 1, 2, 3, 4, 5, 6]))]))
     ''exclude_seasons'' = JArr (map (\<lambda>i. JNum (Fin i)) [0, 1, 2, 3, 4, 5])
   \<and> ''exclude_seasons'' \<in> set (snd (validateWeatherConfig
      [(''exclude_seasons'', JArr (map (\<lambda>i. JNum (Fin i)) [0, 1, 2, 3, 4, 5, 6]))]))
   \<and> obj_get (fst (validateWeatherConfig
      [(''exclude_seasons'', JArr [JNum (Fin 2), JStr ''x'', JNum (Fin 9), JNum (Fin (5 / 2))])]))
     ''exclude_seasons'' = JArr [JNum (Fin 2)]
   \<and> ''exclude_seasons'' \<in> set (snd (validateWeatherConfig
      [(''exclude_seasons'', JArr [JNum (Fin 2), JStr ''x'', JNum (Fin 9), JNum (Fin (5 / 2))])]))"
proof -
  let ?xs = "map (\<lambda>i. JNum (Fin i)) [0, 1, 2, 3, 4, 5, 6]"
  let ?ys = "[JNum (Fin 2), JStr ''x'', JNum (Fin 9), JNum (Fin (5 / 2))]"
  have all: "\<forall>i::nat. i \<le> 6 \<longrightarrow> JNum (Fin (of_nat i)) \<in> set ?xs"
    using all_seven by fastforce
  have kept: "filter not_storm (filter valid_season ?xs) = map (\<lambda>i. JNum (Fin i)) [0, 1, 2, 3, 4, 5]"
    by code_simp
  have kept2: "filter valid_season ?ys = [JNum (Fin 2)]"
    by code_simp
  have g: "obj_get [(''exclude_seasons'', JArr ?xs)] ''exclude_seasons'' = JArr ?xs"
    "obj_get [(''exclude_seasons'', JArr ?ys)] ''exclude_seasons'' = JArr ?ys"
    by simp_all
  show ?thesis
    using exclude_seasons_validation [OF g(1)] exclude_seasons_validation [OF g(2)] all kept kept2
    by simp
qed

section \<open>Properties of the loader\<close>

lemma hasOwnProperty_keys: "hasOwnProperty ms k \<longleftrightarrow> k \<in> set (keys ms)"
  by (induction ms) (auto simp: keys_def)

lemma keys_obj_set_own: "hasOwnProperty ms k \<Longrightarrow> keys (obj_set ms k v) = keys ms"
  by (induction ms) (auto simp: keys_def)

lemma keys_obj_set: "k \<in> set (keys ms) \<Longrightarrow> keys (obj_set ms k v) = keys ms"
  by (simp add: keys_obj_set_own hasOwnProperty_keys)

lemma merge_key_keys:
  "set dk \<subseteq> set (keys m) \<Longrightarrow> keys (merge_key loaded dk key m) = keys m"
  by (auto simp: merge_key_def keys_obj_set)

lemma merge_fold_keys:
  "set dk \<subseteq> set (keys m) \<Longrightarrow> keys (fold (merge_key loaded dk) ks m) = keys m"
proof (induction ks arbitrary: m)
  case Nil
  show ?case by simp
next
  case (Cons key ks)
  have k: "keys (merge_key loaded dk key m) = keys m"
    using Cons.prems by (rule merge_key_keys)
  then have "set dk \<subseteq> set (keys (merge_key loaded dk key m))" using Cons.prems by simp
  then have "keys (fold (merge_key loaded dk) ks (merge_key loaded dk key m))
      = keys (merge_key loaded dk key m)"
    by (rule Cons.IH)
  with k show ?case by simp
qed

lemma merge_fold_get:
  "obj_get (fold (merge_key loaded dk) ks m) k =
     (if k \<in> set ks \<and> k \<in> set dk \<and> hasOwnProperty loaded k then obj_get loaded k
      else obj_get m k)"
  by (induction ks arbitrary: m) (auto simp: merge_key_def obj_get_set)

lemma own_props_obj: "own_props (JObj loaded) = loaded"
  by (simp add: own_props_def)

lemma merge_config_keys: "keys (merge_config (JObj loaded) d) = keys d"
  by (simp add: merge_config_def own_props_obj merge_fold_keys)

lemma merge_config_get:
  "obj_get (merge_config (JObj loaded) d) k =
     (if k \<in> set (keys d) \<and> hasOwnProperty loaded k then obj_get loaded k else obj_get d k)"
  by (auto simp: merge_config_def own_props_obj merge_fold_get hasOwnProperty_keys)

lemma merge_needs_update_obj:
  "merge_needs_update (JObj loaded) d = list_ex (\<lambda>k. \<not> hasOwnProperty loaded k) (keys d)"
  by (simp add: merge_needs_update_def own_props_obj missing_key_def [abs_def])

lemma apply_check_keys_kept:
  "fst c \<in> set (keys (fst st)) \<Longrightarrow> keys (fst (apply_check c st)) = keys (fst st)"
  by (simp add: apply_check_def keys_obj_set split: option.splits)

lemma fold_checks_keys_kept:
  "\<forall>c\<in>set cs. fst c \<in> set (keys (fst st)) \<Longrightarrow>
     keys (fst (fold apply_check cs st)) = keys (fst st)"
  by (induction cs arbitrary: st) (auto simp: apply_check_keys_kept)

lemma main_check_order_owned: "list_all (hasOwnProperty defaultMainConfigValues) main_check_order"
  by code_simp

lemma validateMainConfig_keys_kept:
  assumes "keys cfg = keys defaultMainConfigValues"
  shows "keys (fst (validateMainConfig cfg)) = keys cfg"
proof -
  have "\<forall>k\<in>set (map fst main_checks). k \<in> set (keys cfg)"
    using main_check_order_owned assms
    by (simp add: main_checks_keys list_all_iff hasOwnProperty_keys)
  then have "\<forall>c\<in>set main_checks. fst c \<in> set (keys (fst (cfg, [] :: string list)))"
    by simp
  then have "keys (fst (fold apply_check main_checks (cfg, []))) = keys (fst (cfg, [] :: string list))"
    by (rule fold_checks_keys_kept)
  then show ?thesis by (simp add: validateMainConfig_checks)
qed

lemma main_check_stack:
  "(''stacksize_lega'', fix_int_range defaultMainConfigValues ''stacksize_lega'' 1 999)
     \<in> set main_checks"
  by (simp add: main_checks_def)

lemma default_stack:
  "obj_get defaultMainConfigValues ''stacksize_lega'' = JNum (Fin 50)"
  "''stacksize_lega'' \<in> set (keys defaultMainConfigValues)"
  "\<not> hasOwnProperty defaultMainConfigValues ''foo''"
  by code_simp+

lemma list_ex_missing: "k \<in> set ks \<Longrightarrow> \<not> hasOwnProperty loaded k \<Longrightarrow>
    list_ex (\<lambda>k. \<not> hasOwnProperty loaded k) ks"
  by (auto simp: list_ex_iff)

text \<open>
  Claim C5. The merged object has exactly the keys of the defaults, in their order: a key
  of the file that the defaults do not have is dropped. A key of the defaults that the
  file has takes the file's value as it is, any other keeps the default. The file needs an
  update as soon as a default key is missing from it. In particular, for a file without
  \<^verbatim>\<open>stacksize_lega\<close>, with or without a key \<^verbatim>\<open>foo\<close>, the loaded settings have
  \<^verbatim>\<open>stacksize_lega\<close> 50 and no \<^verbatim>\<open>foo\<close>, and the file needs an update.
\<close>

theorem merge_with_defaults:
  "keys (merge_config (JObj loaded) d) = keys d
   \<and> (\<forall>k. obj_get (merge_config (JObj loaded) d) k =
         (if k \<in> set (keys d) \<and> hasOwnProperty loaded k then obj_get loaded k else obj_get d k))
   \<and> fileNeedsUpdate (merge_and_validate (JObj loaded) d validate a)
       = (list_ex (\<lambda>k. \<not> hasOwnProperty loaded k) (keys d) \<or> snd (validate (merge_config (JObj loaded) d)) \<noteq> [])
   \<and> (\<not> hasOwnProperty loaded ''stacksize_lega'' \<longrightarrow>
        fileNeedsUpdate (merge_and_validate (JObj loaded) defaultMainConfigValues validateMainConfig a)
        \<and> obj_get (config (merge_and_validate (JObj loaded) defaultMainConfigValues
              validateMainConfig a)) ''stacksize_lega'' = JNum (Fin 50)
        \<and> \<not> hasOwnProperty (config (merge_and_validate (JObj loaded) defaultMainConfigValues
              validateMainConfig a)) ''foo'')"
proof (intro conjI allI impI)
  show "keys (merge_config (JObj loaded) d) = keys d" by (rule merge_config_keys)
next
  fix k
  show "obj_get (merge_config (JObj loaded) d) k =
         (if k \<in> set (keys d) \<and> hasOwnProperty loaded k then obj_get loaded k else obj_get d k)"
    by (rule merge_config_get)
next
  show "fileNeedsUpdate (merge_and_validate (JObj loaded) d validate a)
       = (list_ex (\<lambda>k. \<not> hasOwnProperty loaded k) (keys d) \<or> snd (validate (merge_config (JObj loaded) d)) \<noteq> [])"
    by (simp add: merge_and_validate_def Let_def merge_needs_update_obj)
next
  let ?m = "merge_config (JObj loaded) defaultMainConfigValues"
  let ?r = "merge_and_validate (JObj loaded) defaultMainConfigValues validateMainConfig a"
  assume miss: "\<not> hasOwnProperty loaded ''stacksize_lega''"
  have cfg: "config ?r = fst (validateMainConfig ?m)"
    by (simp add: merge_and_validate_def Let_def)
  show "fileNeedsUpdate ?r"
    using list_ex_missing [OF default_stack(2) miss]
    by (simp add: merge_and_validate_def Let_def merge_needs_update_obj)
  have m: "obj_get ?m ''stacksize_lega'' = JNum (Fin 50)"
    using miss by (simp add: merge_config_get default_stack)
  have "fix_int_range defaultMainConfigValues ''stacksize_lega'' 1 999 (JNum (Fin 50)) = None"
    by (simp add: fix_int_range_def)
  then show "obj_get (config ?r) ''stacksize_lega'' = JNum (Fin 50)"
    using fold_checks_get [OF main_checks_distinct main_check_stack, of "(?m, [])"] m
    by (simp add: cfg validateMainConfig_checks)
  have "keys (config ?r) = keys defaultMainConfigValues"
    using validateMainConfig_keys_kept [of ?m] by (simp add: cfg merge_config_keys)
  then show "\<not> hasOwnProperty (config ?r) ''foo''"
    using default_stack(3) by (simp add: hasOwnProperty_keys)
qed

lemma foo_file_parsed:
  "json_parse (fixTrailingCommas (stripJsonComments
      ''{ \"foo\": 1, \"LootArmbands\": false, } // stacksize_lega is missing''))
     = Inr (JObj [(''foo'', JNum (Fin 1)), (''LootArmbands'', JBool False)])"
  by code_simp

theorem merge_with_defaults_witness:
  "fileNeedsUpdate (loadAndValidateConfigFile
      (Inr ''{ \"foo\": 1, \"LootArmbands\": false, } // stacksize_lega is missing'')
      json_parse defaultMainConfigValues validateMainConfig False)
   \<and> obj_get (config (loadAndValidateConfigFile
      (Inr ''{ \"foo\": 1, \"LootArmbands\": false, } // stacksize_lega is missing'')
      json_parse defaultMainConfigValues validateMainConfig False)) ''stacksize_lega''
      = JNum (Fin 50)
   \<and> \<not> hasOwnProperty (config (loadAndValidateConfigFile
      (Inr ''{ \"foo\": 1, \"LootArmbands\": false, } // stacksize_lega is missing'')
      json_parse defaultMainConfigValues validateMainConfig False)) ''foo''"
proof -
  have miss: "\<not> hasOwnProperty [(''foo'', JNum (Fin 1)), (''LootArmbands'', JBool False)]
      ''stacksize_lega''"
    by simp
  from merge_with_defaults [of "[(''foo'', JNum (Fin 1)), (''LootArmbands'', JBool False)]"
      defaultMainConfigValues validateMainConfig False] miss
  have "fileNeedsUpdate (merge_and_validate
        (JObj [(''foo'', JNum (Fin 1)), (''LootArmbands'', JBool False)])
        defaultMainConfigValues validateMainConfig False)
    \<and> obj_get (config (merge_and_validate
        (JObj [(''foo'', JNum (Fin 1)), (''LootArmbands'', JBool False)])
        defaultMainConfigValues validateMainConfig False)) ''stacksize_lega'' = JNum (Fin 50)
    \<and> \<not> hasOwnProperty (config (merge_and_validate
        (JObj [(''foo'', JNum (Fin 1)), (''LootArmbands'', JBool False)])
        defaultMainConfigValues validateMainConfig False)) ''foo''"
    by blast
  then show ?thesis by (simp add: load_parsed [OF foo_file_parsed])
qed

text \<open>
  A \<^verbatim>\<open>deserialize\<close> that gives a falsy value instead of throwing takes the other path
  (\<open>Loading failed, needs update if allowed\<close> in the source): the defaults are returned as
  well, but the file counts as needing an update and is rewritten when that is allowed.
\<close>

lemma main_defaults_valid: "validateMainConfig defaultMainConfigValues = (defaultMainConfigValues, [])"
  by code_simp

lemma load_falsy_result:
  assumes "\<not> list_all is_space (fixTrailingCommas (stripJsonComments raw))"
    and "deserialize (fixTrailingCommas (stripJsonComments raw)) = Inr loadedConfig"
    and "\<not> truthy loadedConfig"
  shows "loadAndValidateConfigFile (Inr raw) deserialize defaultMainConfigValues
           validateMainConfig allowWriteBack =
         \<lparr>config = defaultMainConfigValues, resetKeys = [], fileNeedsUpdate = True,
          rewriteAttempted = allowWriteBack\<rparr>"
proof -
  have "fixTrailingCommas (stripJsonComments raw) \<noteq> []" using assms(1) by auto
  moreover have "trim (fixTrailingCommas (stripJsonComments raw)) \<noteq> []"
    using assms(1) by (simp add: trim_Nil_iff)
  ultimately show ?thesis
    using assms(2,3)
    by (simp add: loadAndValidateConfigFile_def Let_def merge_and_validate_def merge_config_def
        merge_needs_update_def main_defaults_valid)
qed

text \<open>
  Claim C4. When reading the file throws, when the sanitized text is empty or white space
  only, or when parsing it throws, the loader returns the default object, with no reset
  key, no update needed and no rewrite attempted; no error leaves the loader.
\<close>

theorem load_failure_gives_defaults:
  assumes "readFileSync = Inl readError
     \<or> (\<exists>raw. readFileSync = Inr raw
            \<and> list_all is_space (fixTrailingCommas (stripJsonComments raw)))
     \<or> (\<exists>raw parseError. readFileSync = Inr raw
            \<and> deserialize (fixTrailingCommas (stripJsonComments raw)) = Inl parseError)"
  shows "loadAndValidateConfigFile readFileSync deserialize defaultConfigValues
           validationFunction allowWriteBack =
         \<lparr>config = defaultConfigValues, resetKeys = [], fileNeedsUpdate = False,
          rewriteAttempted = False\<rparr>"
  using assms
  by (auto simp: loadAndValidateConfigFile_def use_defaults_def Let_def trim_Nil_iff)

theorem load_failure_witness:
  "loadAndValidateConfigFile (Inl IOError) json_parse defaultMainConfigValues
       validateMainConfig True
     = \<lparr>config = defaultMainConfigValues, resetKeys = [], fileNeedsUpdate = False,
        rewriteAttempted = False\<rparr>
   \<and> loadAndValidateConfigFile (Inr '' // nothing but a comment'') json_parse
       defaultMainConfigValues validateMainConfig True
     = \<lparr>config = defaultMainConfigValues, resetKeys = [], fileNeedsUpdate = False,
        rewriteAttempted = False\<rparr>
   \<and> loadAndValidateConfigFile (Inr ''{ \"LootArmbands\": tru }'') json_parse
       defaultMainConfigValues validateMainConfig True
     = \<lparr>config = defaultMainConfigValues, resetKeys = [], fileNeedsUpdate = False,
        rewriteAttempted = False\<rparr>"
proof -
  have blank: "list_all is_space (fixTrailingCommas (stripJsonComments '' // nothing but a comment''))"
    by code_simp
  have bad: "json_parse (fixTrailingCommas (stripJsonComments ''{ \"LootArmbands\": tru }''))
      = Inl SyntaxError"
    by code_simp
  show ?thesis
    using load_failure_gives_defaults [of "Inl IOError" IOError json_parse
        defaultMainConfigValues validateMainConfig True]
      load_failure_gives_defaults [of "Inr '' // nothing but a comment''" IOError json_parse
        defaultMainConfigValues validateMainConfig True]
      load_failure_gives_defaults [of "Inr ''{ \"LootArmbands\": tru }''" IOError json_parse
        defaultMainConfigValues validateMainConfig True]
      blank bad
    by blast
qed

section \<open>Settings consumers\<close>

text \<open>
  A consumer holds the validated settings, typed as the interface
  \<^verbatim>\<open>IAdditionalSettingsConfig\<close> declares them (the fields the four consumers below read),
  and mutates data of the host in place; the model returns the data after the call.
\<close>

record settings =
  LootArmbands :: bool
  SaveArmbandOnDeath :: bool
  LootMelee :: bool
  SaveMeleeOnDeath :: bool
  leaveItemAtLocationModifier :: rat
  placeBeaconModifier :: rat
  weightless_ammo :: bool
  weightless_ammoboxes :: bool
  weightless_grenades :: bool

text \<open>An item template of the host, as far as the consumers look at it: \<^verbatim>\<open>_props\<close> (absent
  or an object with \<^verbatim>\<open>Unlootable\<close>, \<^verbatim>\<open>UnlootableFromSide\<close> and \<^verbatim>\<open>Weight\<close>) and \<^verbatim>\<open>_parent\<close>
  (the empty string stands for an absent one: both are falsy).\<close>

record item_props =
  Unlootable :: jsval
  UnlootableFromSide :: jsval
  Weight :: jsval



subsection \<open>\<^verbatim>\<open>CoreModule.applyLootabilitySettings\<close>\<close>




text \<open>One of the two blocks of the loop body: an unlootable item of the given parent is
  made lootable when the feature is enabled and the item is not blacklisted.\<close>

definition make_lootable :: "bool \<Rightarrow> string \<Rightarrow> bool \<Rightarrow> string \<Rightarrow> item_props \<Rightarrow> item_props" where
  "make_lootable enabled parentId isBlacklisted itemParent p =
     (if itemParent = parentId \<and> truthy (Unlootable p)
      then (if enabled \<and> \<not> isBlacklisted
            then p\<lparr>Unlootable := JBool False, UnlootableFromSide := JArr []\<rparr>
            else p)
      else p)"



subsection \<open>\<^verbatim>\<open>AmmoModule.applyAmmoWeightChanges\<close>\<close>







subsection \<open>\<^verbatim>\<open>LostOnDeathModule.applyLostOnDeathChanges\<close>\<close>



subsection \<open>\<^verbatim>\<open>PlantTimeModule.applyPlantTimeChanges\<close>\<close>









section \<open>Properties of the consumers\<close>

lemma make_lootable_idem:
  "make_lootable en pid bl par (make_lootable en pid bl par p) = make_lootable en pid bl par p"
  by (simp add: make_lootable_def)

lemma make_lootable_commute_idem:
  "make_lootable e1 a bl par (make_lootable e2 b bl par
     (make_lootable e1 a bl par (make_lootable e2 b bl par p)))
   = make_lootable e1 a bl par (make_lootable e2 b bl par p)"
  by (simp add: make_lootable_def)











end
